theory Spec2Isabelle
  imports Complex_Main
begin

section \<open>The GPX object handed over by the parsing library\<close>

text \<open>
  \<open>gpxpy.parse\<close> returns an object with \<open>tracks\<close>, each track has \<open>segments\<close>, each
  segment has \<open>points\<close>. A point always has a latitude and a longitude (the parser
  refuses a \<open>trkpt\<close> without them); its elevation and its time are \<open>None\<close> when the file
  has no \<open>ele\<close> or \<open>time\<close> element. A time is a position on an idealised time line,
  in seconds.
\<close>

record GPXTrackPoint =
  latitude :: real
  longitude :: real
  elevation :: "real option"
  time :: "real option"

datatype GPXTrackSegment = GPXTrackSegment (points: "GPXTrackPoint list")

datatype GPXTrack = GPXTrack (segments: "GPXTrackSegment list")

datatype GPX = GPX (tracks: "GPXTrack list")

section \<open>Exceptions and floating-point cells\<close>

datatype error = KeyError string | TypeError string | OSError string

text \<open>
  A non-null value of a float64 column: a finite number (idealised as a real, rounding
  error left out) or one of the two infinities. The null of a column (NaN in a float64
  column, \<open>None\<close> in an object column, NaT in a datetime column) is \<open>None\<close>.
\<close>

datatype float64 = Fin real | PInf | NInf

type_synonym cell = "float64 option"

text \<open>Python's \<open>round(x, 2)\<close>: to the nearest hundredth, a tie to the even neighbour.\<close>

definition round2 :: "real \<Rightarrow> real" where
  "round2 x =
     (let y = x * 100; f = \<lfloor>y\<rfloor>; r = y - of_int f
      in of_int (if r < 1 / 2 then f
                 else if 1 / 2 < r then f + 1
                 else if even f then f else f + 1) / 100)"

fun cell_round2 :: "cell \<Rightarrow> cell" where
  "cell_round2 None = None"
| "cell_round2 (Some (Fin x)) = Some (Fin (round2 x))"
| "cell_round2 (Some PInf) = Some PInf"
| "cell_round2 (Some NInf) = Some NInf"

text \<open>Float addition; \<open>inf + (-inf)\<close> is NaN.\<close>

fun cell_add :: "cell \<Rightarrow> cell \<Rightarrow> cell" where
  "cell_add None _ = None"
| "cell_add _ None = None"
| "cell_add (Some (Fin a)) (Some (Fin b)) = Some (Fin (a + b))"
| "cell_add (Some PInf) (Some NInf) = None"
| "cell_add (Some NInf) (Some PInf) = None"
| "cell_add (Some PInf) _ = Some PInf"
| "cell_add _ (Some PInf) = Some PInf"
| "cell_add (Some NInf) _ = Some NInf"
| "cell_add _ (Some NInf) = Some NInf"

text \<open>Multiplication and division of a float by a positive finite constant.\<close>

fun cell_scale :: "cell \<Rightarrow> real \<Rightarrow> cell" where
  "cell_scale None k = None"
| "cell_scale (Some (Fin a)) k = Some (Fin (a * k))"
| "cell_scale (Some PInf) k = Some PInf"
| "cell_scale (Some NInf) k = Some NInf"

text \<open>
  \<open>df['distance'] / df['time_diff']\<close>, one row: float division raises nothing. A null
  divisor gives null; a zero divisor gives an infinity with the sign of the dividend,
  and NaN for \<open>0 / 0\<close>.
\<close>

definition truediv :: "real \<Rightarrow> real option \<Rightarrow> cell" where
  "truediv d t =
     (case t of
        None \<Rightarrow> None
      | Some s \<Rightarrow>
          if s \<noteq> 0 then Some (Fin (d / s))
          else if 0 < d then Some PInf
          else if d < 0 then Some NInf
          else None)"

section \<open>Column operations\<close>

text \<open>\<open>Series.shift(-1)\<close>: every row takes the value of the next one, the last row null.\<close>

definition shift_m1 :: "'a option list \<Rightarrow> 'a option list" where
  "shift_m1 xs = (case xs of [] \<Rightarrow> [] | _ # rest \<Rightarrow> rest @ [None])"

text \<open>\<open>Series.isnull().all()\<close>.\<close>

definition isnull_all :: "'a option list \<Rightarrow> bool" where
  "isnull_all xs = list_all (\<lambda>c. c = None) xs"

text \<open>Subtraction of two cells of a float64 or datetime column: null if either is.\<close>

definition osub :: "real option \<Rightarrow> real option \<Rightarrow> real option" where
  "osub a b = (case (a, b) of (Some x, Some y) \<Rightarrow> Some (x - y) | _ \<Rightarrow> None)"

text \<open>
  \<open>Series.diff()\<close> of a float64 column: the first row is null, every other row is its
  value minus the previous row's.
\<close>

definition diff :: "real option list \<Rightarrow> real option list" where
  "diff xs = (case xs of [] \<Rightarrow> [] | _ # rest \<Rightarrow> None # map2 osub rest xs)"

text \<open>\<open>Series.clip(lower=0)\<close>: nulls stay null.\<close>

definition clip_lower0 :: "real option list \<Rightarrow> real option list" where
  "clip_lower0 xs = map (map_option (max 0)) xs"

text \<open>\<open>Series.sum()\<close> of a column of finite values: nulls are skipped.\<close>

definition nansum :: "real option list \<Rightarrow> real" where
  "nansum xs = sum_list (map (\<lambda>c. case c of None \<Rightarrow> 0 | Some v \<Rightarrow> v) xs)"

text \<open>
  \<open>Series.mean()\<close>: the sum of the non-null values over their number, NaN when there is
  none.
\<close>

definition mean :: "cell list \<Rightarrow> cell" where
  "mean xs =
     (let vals = filter (\<lambda>c. c \<noteq> None) xs
      in if vals = [] then None
         else cell_scale (foldl cell_add (Some (Fin 0)) vals) (1 / real (length vals)))"

section \<open>The table built from the points\<close>

text \<open>
  The \<open>DataFrame\<close>: \<open>columns\<close> holds the names of the columns it has; a column
  that is not named there does not exist, and reading it raises \<open>KeyError\<close>.
  An elevation or time cell is null where the point had \<open>None\<close>. A column whose cells
  are all \<open>None\<close> has dtype object (the cells stay Python's \<open>None\<close>); as soon as one cell
  is a number the column is float64 and its nulls are NaN.
\<close>

record DataFrame =
  columns :: "string list"
  df_latitude :: "real list"
  df_longitude :: "real list"
  df_elevation :: "real option list"
  df_time :: "real option list"
  df_distance :: "real list"
  df_time_diff :: "real option list"
  df_speed :: "cell list"

text \<open>
  \<open>pd.DataFrame(data)\<close> for the list of dicts built in the loop: the columns are the keys
  of the dicts, so the table of an empty list has no column at all.
\<close>

definition DataFrame_of :: "GPXTrackPoint list \<Rightarrow> DataFrame" where
  "DataFrame_of data =
     \<lparr> columns = (if data = [] then []
                  else [''latitude'', ''longitude'', ''elevation'', ''time'']),
       df_latitude = map latitude data,
       df_longitude = map longitude data,
       df_elevation = map elevation data,
       df_time = map time data,
       df_distance = [],
       df_time_diff = [],
       df_speed = [] \<rparr>"

text \<open>\<open>len(df)\<close>: the number of rows.\<close>

definition len :: "DataFrame \<Rightarrow> nat" where
  "len df = length (df_latitude df)"

text \<open>The local function \<open>calculate_distance\<close>, applied to one row.\<close>

definition calculate_distance ::
  "(real \<times> real \<Rightarrow> real \<times> real \<Rightarrow> real) \<Rightarrow>
   real \<times> real \<times> real option \<times> real option \<Rightarrow> real" where
  "calculate_distance geodesic row =
     (case row of (lat, lon, shifted_latitude, shifted_longitude) \<Rightarrow>
        (case (shifted_latitude, shifted_longitude) of
           (Some slat, Some slon) \<Rightarrow> geodesic (lat, lon) (slat, slon)
         | _ \<Rightarrow> 0))"

text \<open>The three nested loops of \<open>parse_gpx\<close> that fill \<open>data\<close>, one dict per point.\<close>

definition collect_data :: "GPX \<Rightarrow> GPXTrackPoint list" where
  "collect_data gpx =
     concat (map (\<lambda>track. concat (map points (segments track))) (tracks gpx))"

text \<open>
  \<open>parse_gpx\<close>, from the parsed GPX object on. \<open>geodesic\<close> is the distance function of
  the geodesy library, in metres; it is not part of this program and is a parameter.
\<close>

definition parse_gpx ::
  "(real \<times> real \<Rightarrow> real \<times> real \<Rightarrow> real) \<Rightarrow> GPX \<Rightarrow> error + DataFrame" where
  "parse_gpx geodesic gpx =
     (let data = collect_data gpx;
          df = DataFrame_of data;
          df = (if ''elevation'' \<notin> set (columns df)
                then df\<lparr>columns := columns df @ [''elevation''],
                        df_elevation := replicate (len df) (Some 0)\<rparr>
                else df);
          df = (if ''time'' \<notin> set (columns df)
                then df\<lparr>columns := columns df @ [''time''],
                        df_time := replicate (len df) None\<rparr>
                else if isnull_all (df_time df)
                then df\<lparr>df_time := replicate (len df) None\<rparr>
                else df)
      in if ''latitude'' \<notin> set (columns df) then Inl (KeyError ''latitude'')
         else if ''longitude'' \<notin> set (columns df) then Inl (KeyError ''longitude'')
         else
           let shifted_latitude = shift_m1 (map Some (df_latitude df));
               shifted_longitude = shift_m1 (map Some (df_longitude df));
               shifted_time = shift_m1 (df_time df);
               distance = map (calculate_distance geodesic)
                            (zip (df_latitude df) (zip (df_longitude df)
                               (zip shifted_latitude shifted_longitude)));
               df = df\<lparr>columns := columns df @ [''distance''], df_distance := distance\<rparr>;
               df = (if \<not> isnull_all (df_time df)
                     then let time_diff = map2 osub shifted_time (df_time df)
                          in df\<lparr>columns := columns df @ [''time_diff'', ''speed''],
                                df_time_diff := time_diff,
                                df_speed := map2 truediv (df_distance df) time_diff\<rparr>
                     else df\<lparr>columns := columns df @ [''speed''],
                             df_speed := replicate (len df) None\<rparr>)
           in Inr df)"

section \<open>Trip statistics\<close>

text \<open>
  \<open>df['elevation'].diff().clip(lower=0).sum()\<close>. On an object column \<open>diff\<close> subtracts
  the Python objects themselves, and \<open>None - None\<close> raises \<open>TypeError\<close>; a column of one
  row has no pair to subtract.
\<close>

definition elevation_gain_sum :: "real option list \<Rightarrow> error + real" where
  "elevation_gain_sum col =
     (if isnull_all col \<and> 2 \<le> length col
      then Inl (TypeError ''unsupported operand type(s) for -: NoneType and NoneType'')
      else Inr (nansum (clip_lower0 (diff col))))"

definition calculate_features :: "DataFrame \<Rightarrow> error + (real \<times> cell \<times> real)" where
  "calculate_features df =
     (let total_distance = round2 (sum_list (df_distance df) / 1000);
          average_speed = cell_round2 (cell_scale (mean (df_speed df)) 3.6)
      in case elevation_gain_sum (df_elevation df) of
           Inl e \<Rightarrow> Inl e
         | Inr s \<Rightarrow> Inr (total_distance, average_speed, round2 s))"

section \<open>Artifacts and the request handler\<close>

text \<open>
  What the renderers read from outside the table: the tile token taken from the process
  environment at start-up (\<open>os.getenv\<close> gives \<open>None\<close> when the variable is not set), and
  for each call into the file system or the plotting library the exception it raises,
  if it raises one.
\<close>

record environment =
  MAPBOX_ACCESS_TOKEN :: "string option"
  makedirs_failure :: "error option"
  map_save_failure :: "error option"
  elevation_plot_failure :: "error option"
  speed_plot_failure :: "error option"

text \<open>
  \<open>create_map\<close> has no handler: an exception of \<open>os.makedirs\<close>, of the concatenation
  of the tile address with the token, or of \<open>m.save\<close> leaves the function.
\<close>

definition create_map :: "environment \<Rightarrow> DataFrame \<Rightarrow> error + string" where
  "create_map env df =
     (case makedirs_failure env of
        Some e \<Rightarrow> Inl e
      | None \<Rightarrow>
          (case MAPBOX_ACCESS_TOKEN env of
             None \<Rightarrow> Inl (TypeError ''can only concatenate str (not NoneType) to str'')
           | Some token \<Rightarrow>
               (case map_save_failure env of
                  Some e \<Rightarrow> Inl e
                | None \<Rightarrow> Inr ''static/maps/map.html'')))"

text \<open>The two plot functions catch every exception and return \<open>None\<close>.\<close>

definition create_elevation_plot :: "environment \<Rightarrow> DataFrame \<Rightarrow> string option" where
  "create_elevation_plot env df =
     (case elevation_plot_failure env of
        Some e \<Rightarrow> None
      | None \<Rightarrow> Some ''static/images/elevation_plot.png'')"

definition create_speed_distribution_plot :: "environment \<Rightarrow> DataFrame \<Rightarrow> string option" where
  "create_speed_distribution_plot env df =
     (case speed_plot_failure env of
        Some e \<Rightarrow> None
      | None \<Rightarrow> Some ''static/images/speed_distribution_plot.png'')"

text \<open>The values handed to the results template.\<close>

record results =
  total_distance :: real
  average_speed :: cell
  total_elevation_gain :: real
  map_file_path :: string
  plot_file_path :: "string option"

text \<open>
  \<open>index\<close>, the branch of a POST request from the call of \<open>parse_gpx\<close> on. The
  speed-distribution plot is not requested here.
\<close>

definition index ::
  "environment \<Rightarrow> (real \<times> real \<Rightarrow> real \<times> real \<Rightarrow> real) \<Rightarrow> GPX \<Rightarrow> error + results" where
  "index env geodesic gpx =
     (case parse_gpx geodesic gpx of
        Inl e \<Rightarrow> Inl e
      | Inr df \<Rightarrow>
          (case calculate_features df of
             Inl e \<Rightarrow> Inl e
           | Inr (td, av, eg) \<Rightarrow>
               (case create_map env df of
                  Inl e \<Rightarrow> Inl e
                | Inr map_path \<Rightarrow>
                    Inr \<lparr> total_distance = td,
                          average_speed = av,
                          total_elevation_gain = eg,
                          map_file_path = map_path,
                          plot_file_path = create_elevation_plot env df \<rparr>)))"

section \<open>Notation for the theorems\<close>

text \<open>
  The value that \<open>parse_gpx\<close> assigns to the distance column, as a function of the
  collected points.
\<close>

definition distance_rows ::
  "(real \<times> real \<Rightarrow> real \<times> real \<Rightarrow> real) \<Rightarrow> GPXTrackPoint list \<Rightarrow> real list" where
  "distance_rows geo data =
     map (calculate_distance geo)
       (zip (map latitude data) (zip (map longitude data)
          (zip (shift_m1 (map Some (map latitude data)))
               (shift_m1 (map Some (map longitude data))))))"

text \<open>The value that \<open>parse_gpx\<close> assigns to the speed column.\<close>

definition speed_rows ::
  "(real \<times> real \<Rightarrow> real \<times> real \<Rightarrow> real) \<Rightarrow> GPXTrackPoint list \<Rightarrow> cell list" where
  "speed_rows geo data =
     (if isnull_all (map time data)
      then replicate (length data) None
      else map2 truediv (distance_rows geo data)
             (map2 osub (shift_m1 (map time data)) (map time data)))"

text \<open>A speed that is undefined, plus infinity or a finite number not below zero.\<close>

definition nonneg_speed :: "cell \<Rightarrow> bool" where
  "nonneg_speed c =
     (case c of None \<Rightarrow> True | Some (Fin v) \<Rightarrow> 0 \<le> v | Some PInf \<Rightarrow> True
      | Some NInf \<Rightarrow> False)"

text \<open>The contribution of one pair of consecutive elevation cells to the gain.\<close>

definition pair_gain :: "real option \<times> real option \<Rightarrow> real" where
  "pair_gain ab = (case ab of (Some a, Some b) \<Rightarrow> max 0 (b - a) | _ \<Rightarrow> 0)"

text \<open>
  A concrete distance function for running the model on concrete tracks: metres on a
  flat grid with 111195 m to the degree. Like the geodesic distance it is never
  negative and is zero between equal coordinates only.
\<close>

definition flat_geodesic :: "real \<times> real \<Rightarrow> real \<times> real \<Rightarrow> real" where
  "flat_geodesic p q = 111195 * (\<bar>fst q - fst p\<bar> + \<bar>snd q - snd p\<bar>)"

definition pt :: "real \<Rightarrow> real \<Rightarrow> real option \<Rightarrow> real option \<Rightarrow> GPXTrackPoint" where
  "pt la lo e t = \<lparr>latitude = la, longitude = lo, elevation = e, time = t\<rparr>"

definition one_segment :: "GPXTrackPoint list \<Rightarrow> GPX" where
  "one_segment ps = GPX [GPXTrack [GPXTrackSegment ps]]"

text \<open>An environment in which no call into a library fails, with the given token.\<close>

definition no_failure :: "string option \<Rightarrow> environment" where
  "no_failure token =
     \<lparr> MAPBOX_ACCESS_TOKEN = token, makedirs_failure = None, map_save_failure = None,
       elevation_plot_failure = None, speed_plot_failure = None \<rparr>"

section \<open>Basic facts about the columns\<close>

lemma length_shift_m1: "length (shift_m1 xs) = length xs"
  by (cases xs) (simp_all add: shift_m1_def)

lemma nth_shift_m1:
  "i < length xs \<Longrightarrow> shift_m1 xs ! i = (if Suc i < length xs then xs ! Suc i else None)"
  by (cases xs) (auto simp: shift_m1_def nth_append less_Suc_eq)

lemma isnull_all_replicate: "isnull_all (replicate n None)"
  by (simp add: isnull_all_def list_all_iff)

lemma length_distance_rows: "length (distance_rows geo data) = length data"
  by (simp add: distance_rows_def length_shift_m1)

lemma nth_distance_rows:
  assumes "i < length data"
  shows "distance_rows geo data ! i =
     (if Suc i < length data
      then geo (latitude (data ! i), longitude (data ! i))
               (latitude (data ! Suc i), longitude (data ! Suc i))
      else 0)"
  using assms
  by (simp add: distance_rows_def length_shift_m1 nth_shift_m1 calculate_distance_def)

lemma butlast_distance_rows:
  "butlast (distance_rows geo data) =
     map (\<lambda>(p, q). geo (latitude p, longitude p) (latitude q, longitude q))
       (zip data (tl data))"
proof (rule nth_equalityI)
  show "length (butlast (distance_rows geo data)) =
        length (map (\<lambda>(p, q). geo (latitude p, longitude p) (latitude q, longitude q))
          (zip data (tl data)))"
    by (simp add: length_distance_rows)
next
  fix i
  assume "i < length (butlast (distance_rows geo data))"
  then have i: "Suc i < length data"
    by (simp add: length_distance_rows)
  then show "butlast (distance_rows geo data) ! i =
      map (\<lambda>(p, q). geo (latitude p, longitude p) (latitude q, longitude q))
        (zip data (tl data)) ! i"
    by (simp add: nth_butlast length_distance_rows nth_distance_rows nth_tl)
qed

lemma last_distance_rows: "data \<noteq> [] \<Longrightarrow> last (distance_rows geo data) = 0"
proof -
  assume ne: "data \<noteq> []"
  then have "distance_rows geo data \<noteq> []"
    using length_distance_rows [of geo data] by auto
  then show ?thesis
    using ne by (simp add: last_conv_nth length_distance_rows nth_distance_rows)
qed

section \<open>What \<open>parse_gpx\<close> returns\<close>

lemma parse_gpx_empty:
  "collect_data gpx = [] \<Longrightarrow> parse_gpx geo gpx = Inl (KeyError ''latitude'')"
  by (simp add: parse_gpx_def DataFrame_of_def len_def Let_def)

lemma parse_gpx_Inr:
  assumes "collect_data gpx \<noteq> []"
  shows "\<exists>df. parse_gpx geo gpx = Inr df
    \<and> df_latitude df = map latitude (collect_data gpx)
    \<and> df_longitude df = map longitude (collect_data gpx)
    \<and> df_elevation df = map elevation (collect_data gpx)
    \<and> df_distance df = distance_rows geo (collect_data gpx)
    \<and> df_speed df =
         (if isnull_all (map time (collect_data gpx))
          then replicate (length (collect_data gpx)) None
          else map2 truediv (distance_rows geo (collect_data gpx))
                 (map2 osub (shift_m1 (map time (collect_data gpx)))
                    (map time (collect_data gpx))))"
  using assms
  by (simp add: parse_gpx_def DataFrame_of_def len_def Let_def distance_rows_def
        isnull_all_replicate)

lemma parse_gpx_Inr_nonempty: "parse_gpx geo gpx = Inr df \<Longrightarrow> collect_data gpx \<noteq> []"
  using parse_gpx_empty [of gpx geo] by auto

lemma length_speed_rows: "length (speed_rows geo data) = length data"
  by (simp add: speed_rows_def length_distance_rows length_shift_m1)

lemma isnull_all_iff: "isnull_all xs \<longleftrightarrow> (\<forall>c\<in>set xs. c = None)"
  by (simp add: isnull_all_def list_all_iff)

lemma truediv_None: "truediv d None = None"
  by (simp add: truediv_def)

lemma osub_None: "osub None b = None" "osub a None = None"
  by (simp_all add: osub_def split: option.splits)

lemma osub_Some: "osub (Some a) (Some b) = Some (a - b)"
  by (simp add: osub_def)

lemma nth_speed_rows_last:
  assumes "i < length data" "\<not> Suc i < length data"
  shows "speed_rows geo data ! i = None"
  using assms
  by (simp add: speed_rows_def length_distance_rows length_shift_m1 nth_shift_m1
        osub_None truediv_None)

lemma nth_speed_rows:
  assumes "Suc i < length data" "\<not> isnull_all (map time data)"
  shows "speed_rows geo data ! i =
      truediv (geo (latitude (data ! i), longitude (data ! i))
                  (latitude (data ! Suc i), longitude (data ! Suc i)))
        (osub (time (data ! Suc i)) (time (data ! i)))"
  using assms
  by (simp add: speed_rows_def length_distance_rows length_shift_m1 nth_shift_m1
        nth_distance_rows)

lemma nth_speed_rows_timeless:
  assumes "i < length data" "isnull_all (map time data)"
  shows "speed_rows geo data ! i = None"
  using assms by (simp add: speed_rows_def)

lemma parse_gpx_speed:
  assumes "parse_gpx geo gpx = Inr df"
  shows "df_speed df = speed_rows geo (collect_data gpx)"
    and "df_distance df = distance_rows geo (collect_data gpx)"
    and "df_elevation df = map elevation (collect_data gpx)"
  using parse_gpx_Inr [OF parse_gpx_Inr_nonempty [OF assms], of geo] assms
  by (auto simp: speed_rows_def)

lemma distance_rows_nonneg:
  assumes "\<And>p q. 0 \<le> geo p q" and "d \<in> set (distance_rows geo data)"
  shows "0 \<le> d"
proof -
  from assms(2) obtain i where i: "i < length data" and d: "d = distance_rows geo data ! i"
    by (auto simp: in_set_conv_nth length_distance_rows)
  show ?thesis
    unfolding d using assms(1) i by (simp add: nth_distance_rows)
qed

lemma truediv_nonneg: "0 \<le> d \<Longrightarrow> 0 \<le> s \<Longrightarrow> nonneg_speed (truediv d (Some s))"
  by (simp add: truediv_def nonneg_speed_def)

lemma nonneg_speed_None: "nonneg_speed None"
  by (simp add: nonneg_speed_def)

lemma flat_geodesic_nonneg: "0 \<le> flat_geodesic p q"
  by (simp add: flat_geodesic_def)

lemma collect_data_one_segment: "collect_data (one_segment ps) = ps"
  by (simp add: collect_data_def one_segment_def)

lemma parse_gpx_collect:
  "collect_data g = collect_data h \<Longrightarrow> parse_gpx geo g = parse_gpx geo h"
  by (simp add: parse_gpx_def)

lemma collect_data_segment_boundary:
  "collect_data (GPX (ts @ GPXTrack (ss @ GPXTrackSegment (s1 @ [p]) #
       GPXTrackSegment (q # s2) # ss') # ts')) =
   (collect_data (GPX ts) @ concat (map points ss) @ s1) @ p # q #
     (s2 @ concat (map points ss') @ collect_data (GPX ts'))"
  by (simp add: collect_data_def)

lemma collect_data_track_boundary:
  "collect_data (GPX (ts @ GPXTrack (ss @ [GPXTrackSegment (s1 @ [p])]) #
       GPXTrack (GPXTrackSegment (q # s2) # ss') # ts')) =
   (collect_data (GPX ts) @ concat (map points ss) @ s1) @ p # q #
     (s2 @ concat (map points ss') @ collect_data (GPX ts'))"
  by (simp add: collect_data_def)

lemma adjacent_rows:
  assumes "collect_data gpx = xs @ p # q # ys"
  shows "\<exists>df. parse_gpx geo gpx = Inr df
    \<and> df_distance df ! length xs = geo (latitude p, longitude p) (latitude q, longitude q)
    \<and> ((\<exists>r\<in>set (collect_data gpx). time r \<noteq> None) \<longrightarrow>
         df_speed df ! length xs =
           truediv (geo (latitude p, longitude p) (latitude q, longitude q))
             (osub (time q) (time p)))"
proof -
  let ?data = "collect_data gpx"
  have ne: "?data \<noteq> []"
    using assms by simp
  from parse_gpx_Inr [OF ne, of geo] obtain df where df: "parse_gpx geo gpx = Inr df"
    by blast
  have i: "Suc (length xs) < length ?data"
    and p: "?data ! length xs = p" and q: "?data ! Suc (length xs) = q"
    by (simp_all add: assms nth_append)
  have d: "df_distance df ! length xs =
      geo (latitude p, longitude p) (latitude q, longitude q)"
    using i by (simp add: parse_gpx_speed(2) [OF df] nth_distance_rows p q)
  have s: "df_speed df ! length xs =
           truediv (geo (latitude p, longitude p) (latitude q, longitude q))
             (osub (time q) (time p))"
    if "\<exists>r\<in>set ?data. time r \<noteq> None"
  proof -
    from that have "\<not> isnull_all (map time ?data)"
      by (auto simp: isnull_all_iff)
    from nth_speed_rows [OF i this, of geo] show ?thesis
      by (simp add: parse_gpx_speed(1) [OF df] p q)
  qed
  show ?thesis
    using df d s by blast
qed





lemma nansum_clip_zip:
  "nansum (clip_lower0 (map2 osub ys xs)) = sum_list (map pair_gain (zip xs ys))"
proof (induction xs arbitrary: ys)
  case Nil
  then show ?case by (simp add: nansum_def clip_lower0_def)
next
  case (Cons x xs)
  show ?case
  proof (cases ys)
    case Nil
    then show ?thesis by (simp add: nansum_def clip_lower0_def)
  next
    case (Cons y ys')
    have "nansum (clip_lower0 (map2 osub (y # ys') (x # xs))) =
        pair_gain (x, y) + nansum (clip_lower0 (map2 osub ys' xs))"
      by (simp add: nansum_def clip_lower0_def osub_def pair_gain_def split: option.splits)
    then show ?thesis
      using Cons.IH [of ys'] Cons by simp
  qed
qed

lemma nansum_clip_Cons: "nansum (clip_lower0 (None # cs)) = nansum (clip_lower0 cs)"
  by (simp add: nansum_def clip_lower0_def)

lemma gain_column: "nansum (clip_lower0 (diff col)) = sum_list (map pair_gain (zip col (tl col)))"
proof (cases col)
  case Nil
  then show ?thesis by (simp add: nansum_def clip_lower0_def diff_def)
next
  case (Cons c rest)
  then have "diff col = None # map2 osub rest col"
    by (simp add: diff_def)
  then show ?thesis
    using Cons by (simp only: nansum_clip_Cons nansum_clip_zip list.sel)
qed


lemma elevation_gain_sum_Inr:
  "elevation_gain_sum col = Inr s \<Longrightarrow> s = sum_list (map pair_gain (zip col (tl col)))"
  by (auto simp: elevation_gain_sum_def gain_column split: if_splits)

lemma elevation_gain_sum_total:
  "\<not> (isnull_all col \<and> 2 \<le> length col) \<Longrightarrow>
   elevation_gain_sum col = Inr (sum_list (map pair_gain (zip col (tl col))))"
  by (simp add: elevation_gain_sum_def gain_column)

lemma calculate_features_Inr:
  "calculate_features df = Inr (td, av, g) \<Longrightarrow>
   td = round2 (sum_list (df_distance df) / 1000)
   \<and> av = cell_round2 (cell_scale (mean (df_speed df)) 3.6)
   \<and> g = round2 (sum_list (map pair_gain (zip (df_elevation df) (tl (df_elevation df)))))"
  by (auto simp: calculate_features_def Let_def split: sum.splits
        dest: elevation_gain_sum_Inr)

lemma calculate_features_total:
  "\<not> (isnull_all (df_elevation df) \<and> 2 \<le> length (df_elevation df)) \<Longrightarrow>
   calculate_features df =
     Inr (round2 (sum_list (df_distance df) / 1000),
          cell_round2 (cell_scale (mean (df_speed df)) 3.6),
          round2 (sum_list (map pair_gain (zip (df_elevation df) (tl (df_elevation df))))))"
  by (simp add: calculate_features_def Let_def elevation_gain_sum_total)





lemma mean_all_null: "\<forall>c\<in>set xs. c = None \<Longrightarrow> mean xs = None"
  by (simp add: mean_def filter_empty_conv)

lemma timeless_average_speed:
  assumes "parse_gpx geo gpx = Inr df"
    and "\<forall>p\<in>set (collect_data gpx). time p = None"
    and "calculate_features df = Inr (td, av, g)"
  shows "av = None"
proof -
  have "isnull_all (map time (collect_data gpx))"
    using assms(2) by (simp add: isnull_all_iff)
  then have "df_speed df = replicate (length (collect_data gpx)) None"
    by (simp add: parse_gpx_speed(1) [OF assms(1)] speed_rows_def)
  then have "mean (df_speed df) = None"
    by (simp add: mean_all_null)
  then show ?thesis
    using calculate_features_Inr [OF assms(3)] by simp
qed

lemma timeless_summary_completes:
  assumes "parse_gpx geo gpx = Inr df"
    and "\<forall>p\<in>set (collect_data gpx). time p = None"
    and "(\<exists>p\<in>set (collect_data gpx). elevation p \<noteq> None) \<or> length (collect_data gpx) \<le> 1"
  shows "\<exists>td g. calculate_features df = Inr (td, None, g)"
proof -
  have el: "df_elevation df = map elevation (collect_data gpx)"
    using assms(1) by (rule parse_gpx_speed)
  have "\<not> (isnull_all (df_elevation df) \<and> 2 \<le> length (df_elevation df))"
    using assms(3) by (auto simp: el isnull_all_iff)
  from calculate_features_total [OF this] obtain td av g where
    cf: "calculate_features df = Inr (td, av, g)"
    by blast
  from timeless_average_speed [OF assms(1,2) cf] cf show ?thesis
    by blast
qed

lemma index_plot_failure_caught:
  assumes "index env geo gpx = Inr r" and "elevation_plot_failure env = Some e"
  shows "plot_file_path r = None"
  using assms
  by (auto simp: index_def create_elevation_plot_def split: sum.splits prod.splits)

lemma index_map_failure_propagates:
  assumes "parse_gpx geo gpx = Inr df" and "calculate_features df = Inr f"
    and "create_map env df = Inl e"
  shows "index env geo gpx = Inl e"
  using assms by (simp add: index_def split: prod.splits)

lemmas track_defs = collect_data_def one_segment_def pt_def

section \<open>Segments and the last row\<close>

text \<open>
  Claim C9. A track of N points (N at least 1, so that the table is built) has N rows of
  distance; the rows but the last are the N - 1 segments, each the distance from a point
  to its successor; the last row, which has no successor, holds 0 and adds nothing to
  the sum of the distances.
\<close>

theorem segment_count:
  assumes "collect_data gpx \<noteq> []"
  shows "\<exists>df. parse_gpx geo gpx = Inr df
    \<and> length (df_distance df) = length (collect_data gpx)
    \<and> length (butlast (df_distance df)) = length (collect_data gpx) - 1
    \<and> butlast (df_distance df) =
        map (\<lambda>(p, q). geo (latitude p, longitude p) (latitude q, longitude q))
          (zip (collect_data gpx) (tl (collect_data gpx)))
    \<and> last (df_distance df) = 0
    \<and> sum_list (df_distance df) = sum_list (butlast (df_distance df))"
proof -
  let ?data = "collect_data gpx"
  let ?d = "distance_rows geo ?data"
  from parse_gpx_Inr [OF assms, of geo] obtain df where
    df: "parse_gpx geo gpx = Inr df" and dist: "df_distance df = ?d"
    by blast
  have len: "length ?d = length ?data"
    by (rule length_distance_rows)
  have ne: "?d \<noteq> []"
    using assms len by auto
  have l: "last ?d = 0"
    using assms by (rule last_distance_rows)
  have "sum_list ?d = sum_list (butlast ?d @ [last ?d])"
    using ne by simp
  also have "\<dots> = sum_list (butlast ?d)"
    using l by simp
  finally have s: "sum_list ?d = sum_list (butlast ?d)" .
  show ?thesis
    using df dist len l s butlast_distance_rows [of geo ?data] by auto
qed

theorem segment_count_witness:
  "collect_data (one_segment
      [pt 0 0 None None, pt 0 (1 / 1000) None None, pt 0 (2 / 1000) None None]) \<noteq> []
   \<and> map_sum id df_distance
        (parse_gpx flat_geodesic (one_segment
           [pt 0 0 None None, pt 0 (1 / 1000) None None, pt 0 (2 / 1000) None None]))
      = Inr [111195 / 1000, 111195 / 1000, 0]"
proof -
  let ?g = "one_segment
      [pt 0 0 None None, pt 0 (1 / 1000) None None, pt 0 (2 / 1000) None None]"
  have ne: "collect_data ?g \<noteq> []"
    by (simp add: collect_data_def one_segment_def)
  from segment_count [OF ne, of flat_geodesic] obtain df where
    df: "parse_gpx flat_geodesic ?g = Inr df"
    and b: "butlast (df_distance df) =
        map (\<lambda>(p, q). flat_geodesic (latitude p, longitude p) (latitude q, longitude q))
          (zip (collect_data ?g) (tl (collect_data ?g)))"
    and l: "last (df_distance df) = 0"
    and n: "length (df_distance df) = length (collect_data ?g)"
    by blast
  from n have "df_distance df \<noteq> []"
    by (auto simp: collect_data_def one_segment_def)
  then have "df_distance df = butlast (df_distance df) @ [last (df_distance df)]"
    by simp
  then have "df_distance df = [111195 / 1000, 111195 / 1000, 0]"
    unfolding b l by (simp add: collect_data_def one_segment_def pt_def flat_geodesic_def)
  with df ne show ?thesis by simp
qed

section \<open>Timestamps and speed\<close>

text \<open>
  Claim C1, as amended. The table has one speed per row. If no point carries a
  timestamp, every speed is undefined. If at least one point carries a timestamp, the
  speed is computed row by row: the row of a segment whose two endpoints both carry a
  timestamp holds the float quotient of its distance by its duration, the row of a
  segment with an endpoint that lacks a timestamp is undefined, and so is the last row.
\<close>

theorem time_awareness:
  assumes "parse_gpx geo gpx = Inr df"
  shows "length (df_speed df) = length (collect_data gpx)
    \<and> ((\<forall>p\<in>set (collect_data gpx). time p = None) \<longrightarrow>
          (\<forall>c\<in>set (df_speed df). c = None))
    \<and> ((\<exists>p\<in>set (collect_data gpx). time p \<noteq> None) \<longrightarrow>
          (\<forall>i. Suc i < length (collect_data gpx) \<longrightarrow>
             df_speed df ! i =
               (case (time (collect_data gpx ! i), time (collect_data gpx ! Suc i)) of
                  (Some t, Some t') \<Rightarrow>
                     truediv (geo (latitude (collect_data gpx ! i), longitude (collect_data gpx ! i))
                                 (latitude (collect_data gpx ! Suc i),
                                  longitude (collect_data gpx ! Suc i)))
                       (Some (t' - t))
                | _ \<Rightarrow> None))
          \<and> last (df_speed df) = None)"
proof -
  let ?data = "collect_data gpx"
  have sp: "df_speed df = speed_rows geo ?data"
    using assms by (rule parse_gpx_speed)
  have ne: "?data \<noteq> []"
    using assms by (rule parse_gpx_Inr_nonempty)
  have a: "length (df_speed df) = length ?data"
    by (simp add: sp length_speed_rows)
  have b: "\<forall>c\<in>set (df_speed df). c = None" if "\<forall>p\<in>set ?data. time p = None"
  proof -
    from that have "isnull_all (map time ?data)"
      by (simp add: isnull_all_iff)
    then show ?thesis
      by (simp add: sp speed_rows_def)
  qed
  have c: "df_speed df ! i =
       (case (time (?data ! i), time (?data ! Suc i)) of
          (Some t, Some t') \<Rightarrow>
             truediv (geo (latitude (?data ! i), longitude (?data ! i))
                         (latitude (?data ! Suc i), longitude (?data ! Suc i)))
               (Some (t' - t))
        | _ \<Rightarrow> None)"
    if some: "\<exists>p\<in>set ?data. time p \<noteq> None" and i: "Suc i < length ?data" for i
  proof -
    from some have "\<not> isnull_all (map time ?data)"
      by (auto simp: isnull_all_iff)
    from nth_speed_rows [OF i this, of geo] show ?thesis
      by (simp add: sp osub_def truediv_None split: option.splits)
  qed
  have d: "last (df_speed df) = None"
  proof -
    have "speed_rows geo ?data \<noteq> []"
      using ne length_speed_rows [of geo ?data] by auto
    then have "last (speed_rows geo ?data) = speed_rows geo ?data ! (length ?data - 1)"
      by (simp add: last_conv_nth length_speed_rows)
    also have "\<dots> = None"
      using ne by (intro nth_speed_rows_last) auto
    finally show ?thesis by (simp add: sp)
  qed
  show ?thesis
    using a b c d by blast
qed

text \<open>
  The claim as stated fails: the third point of this track has no timestamp, and the
  first segment still gets a speed, computed from the times of the first two points.
\<close>

theorem time_awareness_counterexample:
  "map_sum id df_speed
     (parse_gpx flat_geodesic (one_segment
        [pt 0 0 None (Some 0), pt 0 1 None (Some 10), pt 0 2 None None]))
   = Inr [Some (Fin (22239 / 2)), None, None]"
  by (simp add: parse_gpx_def collect_data_def one_segment_def pt_def DataFrame_of_def
        len_def Let_def isnull_all_def shift_m1_def calculate_distance_def
        flat_geodesic_def osub_def truediv_def)

theorem time_awareness_witness:
  "map time (collect_data (one_segment [pt 0 0 None None, pt 0 1 None None])) = [None, None]
   \<and> map_sum id df_speed
        (parse_gpx flat_geodesic (one_segment [pt 0 0 None None, pt 0 1 None None]))
      = Inr [None, None]
   \<and> map time (collect_data (one_segment
          [pt 0 0 None (Some 0), pt 0 1 None (Some 10), pt 0 2 None None]))
      = [Some 0, Some 10, None]
   \<and> map_sum id (\<lambda>df. (df_speed df ! 0, df_speed df ! Suc 0, last (df_speed df)))
        (parse_gpx flat_geodesic (one_segment
          [pt 0 0 None (Some 0), pt 0 1 None (Some 10), pt 0 2 None None]))
      = Inr (Some (Fin (22239 / 2)), None, None)"
proof -
  let ?a = "one_segment [pt 0 0 None None, pt 0 1 None None]"
  let ?b = "one_segment
          [pt 0 0 None (Some 0), pt 0 1 None (Some 10), pt 0 2 None None]"
  have da: "collect_data ?a = [pt 0 0 None None, pt 0 1 None None]"
    and db: "collect_data ?b =
      [pt 0 0 None (Some 0), pt 0 1 None (Some 10), pt 0 2 None None]"
    by (simp_all add: collect_data_def one_segment_def)
  obtain dfa where dfa: "parse_gpx flat_geodesic ?a = Inr dfa"
    using parse_gpx_Inr [of ?a flat_geodesic] da by auto
  obtain dfb where dfb: "parse_gpx flat_geodesic ?b = Inr dfb"
    using parse_gpx_Inr [of ?b flat_geodesic] db by auto
  have none_a: "\<forall>p\<in>set (collect_data ?a). time p = None"
    by (simp add: track_defs)
  have some_b: "\<exists>p\<in>set (collect_data ?b). time p \<noteq> None"
    by (simp add: track_defs)
  from time_awareness [OF dfa] none_a
  have "length (df_speed dfa) = 2" and "\<forall>c\<in>set (df_speed dfa). c = None"
    by (simp_all add: da)
  then have ra: "df_speed dfa = [None, None]"
    by (cases "df_speed dfa"; cases "tl (df_speed dfa)") auto
  from time_awareness [OF dfb] some_b
  have ix: "\<forall>i. Suc i < length (collect_data ?b) \<longrightarrow>
             df_speed dfb ! i =
               (case (time (collect_data ?b ! i), time (collect_data ?b ! Suc i)) of
                  (Some t, Some t') \<Rightarrow>
                     truediv (flat_geodesic
                                 (latitude (collect_data ?b ! i), longitude (collect_data ?b ! i))
                                 (latitude (collect_data ?b ! Suc i),
                                  longitude (collect_data ?b ! Suc i)))
                       (Some (t' - t))
                | _ \<Rightarrow> None)"
    and lb: "last (df_speed dfb) = None"
    by blast+
  from ix [rule_format, of 0] have b0: "df_speed dfb ! 0 = Some (Fin (22239 / 2))"
    by (simp add: track_defs flat_geodesic_def truediv_def)
  from ix [rule_format, of "Suc 0"] have b1: "df_speed dfb ! Suc 0 = None"
    by (simp add: track_defs)
  have ta: "map time (collect_data ?a) = [None, None]"
    and tb: "map time (collect_data ?b) = [Some 0, Some 10, None]"
    by (simp_all add: track_defs)
  show ?thesis
    using ta tb by (simp add: dfa dfb ra b0 b1 lb)
qed

text \<open>
  Claim C2, as amended. A segment whose two endpoints carry the same timestamp raises
  no exception, and the division by its zero duration is performed: its speed is plus
  infinity when its distance is positive, minus infinity when it is negative, and NaN
  (the null of the column) when it is zero.
\<close>

theorem zero_duration_speed:
  assumes "Suc i < length (collect_data gpx)"
    and "time (collect_data gpx ! i) = Some t"
    and "time (collect_data gpx ! Suc i) = Some t"
  shows "\<exists>df. parse_gpx geo gpx = Inr df
    \<and> df_distance df ! i =
         geo (latitude (collect_data gpx ! i), longitude (collect_data gpx ! i))
             (latitude (collect_data gpx ! Suc i), longitude (collect_data gpx ! Suc i))
    \<and> df_speed df ! i =
         (if 0 < df_distance df ! i then Some PInf
          else if df_distance df ! i < 0 then Some NInf
          else None)"
proof -
  let ?data = "collect_data gpx"
  have ne: "?data \<noteq> []"
    using assms(1) by auto
  from parse_gpx_Inr [OF ne, of geo] obtain df where df: "parse_gpx geo gpx = Inr df"
    by blast
  have "time (?data ! i) \<in> set (map time ?data)"
    using assms(1) by simp
  then have nn: "\<not> isnull_all (map time ?data)"
    unfolding isnull_all_iff using assms(2) by (metis option.distinct(1))
  have d: "df_distance df ! i =
         geo (latitude (?data ! i), longitude (?data ! i))
             (latitude (?data ! Suc i), longitude (?data ! Suc i))"
    using assms(1) by (simp add: parse_gpx_speed(2) [OF df] nth_distance_rows)
  have "df_speed df ! i = truediv (df_distance df ! i) (Some 0)"
    using nth_speed_rows [OF assms(1) nn, of geo] assms(2,3)
    by (simp add: parse_gpx_speed(1) [OF df] d osub_Some)
  then show ?thesis
    using df d by (simp add: truediv_def)
qed

text \<open>
  The claim as stated fails: two points one degree apart with the same timestamp give
  the segment the speed plus infinity.
\<close>

theorem zero_duration_speed_counterexample:
  "map_sum id df_speed
     (parse_gpx flat_geodesic (one_segment
        [pt 0 0 None (Some 5), pt 0 1 None (Some 5)]))
   = Inr [Some PInf, None]"
  by (simp add: parse_gpx_def collect_data_def one_segment_def pt_def DataFrame_of_def
        len_def Let_def isnull_all_def shift_m1_def calculate_distance_def
        flat_geodesic_def osub_def truediv_def)

theorem zero_duration_speed_witness:
  "Suc 0 < length (collect_data (one_segment
        [pt 0 0 None (Some 5), pt 0 1 None (Some 5)]))
   \<and> time (collect_data (one_segment
        [pt 0 0 None (Some 5), pt 0 1 None (Some 5)]) ! 0) = Some 5
   \<and> time (collect_data (one_segment
        [pt 0 0 None (Some 5), pt 0 1 None (Some 5)]) ! Suc 0) = Some 5
   \<and> map_sum id (\<lambda>df. (df_distance df ! 0, df_speed df ! 0))
       (parse_gpx flat_geodesic (one_segment
         [pt 0 0 None (Some 5), pt 0 1 None (Some 5)]))
     = Inr (111195, Some PInf)"
proof -
  let ?g = "one_segment [pt 0 0 None (Some 5), pt 0 1 None (Some 5)]"
  have dg: "collect_data ?g = [pt 0 0 None (Some 5), pt 0 1 None (Some 5)]"
    by (simp add: collect_data_def one_segment_def)
  have h1: "Suc 0 < length (collect_data ?g)"
    and h2: "time (collect_data ?g ! 0) = Some 5"
    and h3: "time (collect_data ?g ! Suc 0) = Some 5"
    by (simp_all add: track_defs)
  from zero_duration_speed [OF h1 h2 h3, of flat_geodesic] obtain df where
    "parse_gpx flat_geodesic ?g = Inr df"
    "df_distance df ! 0 = 111195"
    "df_speed df ! 0 =
         (if 0 < df_distance df ! 0 then Some PInf
          else if df_distance df ! 0 < 0 then Some NInf
          else None)"
    by (auto simp: track_defs flat_geodesic_def)
  then show ?thesis
    using h1 h2 h3 by simp
qed

text \<open>
  Claim C7, as amended. With a distance function that is never negative, every row of
  the distance column is at least 0, and the speed of a row is undefined, plus infinity
  or a finite number that is at least 0 unless the row's segment has a negative
  duration. A segment with a negative duration (its end point is stamped earlier than
  its start point) keeps a defined speed, the quotient of its distance by the negative
  duration: a number that is at most 0, and below 0 when the distance is positive.
\<close>

theorem distance_speed_sign:
  assumes "\<forall>p q. 0 \<le> geo p q" and "parse_gpx geo gpx = Inr df"
  shows "(\<forall>d\<in>set (df_distance df). 0 \<le> d)
    \<and> (\<forall>i. i < length (collect_data gpx) \<longrightarrow>
          \<not> (\<exists>t t'. Suc i < length (collect_data gpx)
                 \<and> time (collect_data gpx ! i) = Some t
                 \<and> time (collect_data gpx ! Suc i) = Some t' \<and> t' < t) \<longrightarrow>
          nonneg_speed (df_speed df ! i))
    \<and> (\<forall>i t t'. Suc i < length (collect_data gpx) \<longrightarrow>
          time (collect_data gpx ! i) = Some t \<longrightarrow>
          time (collect_data gpx ! Suc i) = Some t' \<longrightarrow> t' < t \<longrightarrow>
          df_speed df ! i = Some (Fin (df_distance df ! i / (t' - t)))
          \<and> df_distance df ! i / (t' - t) \<le> 0
          \<and> (0 < df_distance df ! i \<longrightarrow> df_distance df ! i / (t' - t) < 0))"
proof -
  let ?data = "collect_data gpx"
  have sp: "df_speed df = speed_rows geo ?data"
    and di: "df_distance df = distance_rows geo ?data"
    using assms(2) by (rule parse_gpx_speed)+
  have geo: "0 \<le> geo p q" for p q
    using assms(1) by blast
  have a: "\<forall>d\<in>set (df_distance df). 0 \<le> d"
    unfolding di using geo by (blast intro: distance_rows_nonneg)
  have pair: "speed_rows geo ?data ! i = truediv (distance_rows geo ?data ! i) (Some (t' - t))"
    if "Suc i < length ?data" "time (?data ! i) = Some t" "time (?data ! Suc i) = Some t'"
    for i t t'
  proof -
    have "time (?data ! i) \<in> set (map time ?data)"
      using that(1) by simp
    then have "\<not> isnull_all (map time ?data)"
      unfolding isnull_all_iff using that(2) by (metis option.distinct(1))
    from nth_speed_rows [OF that(1) this, of geo] that show ?thesis
      by (simp add: nth_distance_rows osub_Some)
  qed
  have b: "nonneg_speed (df_speed df ! i)"
    if i: "i < length ?data"
      and nb: "\<not> (\<exists>t t'. Suc i < length ?data \<and> time (?data ! i) = Some t
                 \<and> time (?data ! Suc i) = Some t' \<and> t' < t)" for i
  proof (cases "Suc i < length ?data \<and> \<not> isnull_all (map time ?data)")
    case False
    then show ?thesis
      using i by (auto simp: sp nth_speed_rows_last nth_speed_rows_timeless nonneg_speed_None)
  next
    case True
    show ?thesis
    proof (cases "time (?data ! i)")
      case None
      then show ?thesis
        using True by (simp add: sp nth_speed_rows osub_None truediv_None nonneg_speed_None)
    next
      case (Some t)
      show ?thesis
      proof (cases "time (?data ! Suc i)")
        case None
        then show ?thesis
          using True by (simp add: sp nth_speed_rows osub_None truediv_None nonneg_speed_None)
      next
        case (Some t')
        with nb True \<open>time (?data ! i) = Some t\<close> have "t \<le> t'"
          by auto
        moreover have "0 \<le> distance_rows geo ?data ! i"
          using True geo by (simp add: nth_distance_rows)
        ultimately show ?thesis
          using pair [of i t t'] True Some \<open>time (?data ! i) = Some t\<close>
          by (simp add: sp truediv_nonneg)
      qed
    qed
  qed
  have c: "df_speed df ! i = Some (Fin (df_distance df ! i / (t' - t)))
          \<and> df_distance df ! i / (t' - t) \<le> 0
          \<and> (0 < df_distance df ! i \<longrightarrow> df_distance df ! i / (t' - t) < 0)"
    if "Suc i < length ?data" "time (?data ! i) = Some t" "time (?data ! Suc i) = Some t'"
      "t' < t" for i t t'
  proof -
    have "0 \<le> distance_rows geo ?data ! i"
      using that(1) geo by (simp add: nth_distance_rows)
    then show ?thesis
      using pair [OF that(1-3)] that(4)
      by (simp add: sp di truediv_def divide_nonneg_neg divide_pos_neg)
  qed
  show ?thesis
    using a b c by blast
qed

text \<open>
  The claim as stated fails: two points one degree apart, the second stamped ten seconds
  before the first, give the segment a negative speed.
\<close>

theorem distance_speed_sign_counterexample:
  "map_sum id df_speed
     (parse_gpx flat_geodesic (one_segment [pt 0 0 None (Some 10), pt 0 1 None (Some 0)]))
   = Inr [Some (Fin (- (22239 / 2))), None]"
  by (simp add: parse_gpx_def track_defs DataFrame_of_def
        len_def Let_def isnull_all_def shift_m1_def calculate_distance_def
        flat_geodesic_def osub_def truediv_def)

theorem distance_speed_sign_witness:
  "(\<forall>p q. 0 \<le> flat_geodesic p q)
   \<and> map_sum id (\<lambda>df. (df_distance df ! 0, df_speed df ! 0))
       (parse_gpx flat_geodesic (one_segment [pt 0 0 None (Some 10), pt 0 1 None (Some 0)]))
     = Inr (111195, Some (Fin (- (22239 / 2))))"
proof -
  let ?g = "one_segment [pt 0 0 None (Some 10), pt 0 1 None (Some 0)]"
  have nn: "\<forall>p q. 0 \<le> flat_geodesic p q"
    by (simp add: flat_geodesic_nonneg)
  obtain df where df: "parse_gpx flat_geodesic ?g = Inr df"
    using parse_gpx_Inr [of ?g flat_geodesic] by (auto simp: track_defs)
  have d0: "df_distance df ! 0 = 111195"
    by (simp add: parse_gpx_speed(2) [OF df] nth_distance_rows track_defs flat_geodesic_def)
  from distance_speed_sign [OF nn df]
  have "\<forall>i t t'. Suc i < length (collect_data ?g) \<longrightarrow>
          time (collect_data ?g ! i) = Some t \<longrightarrow>
          time (collect_data ?g ! Suc i) = Some t' \<longrightarrow> t' < t \<longrightarrow>
          df_speed df ! i = Some (Fin (df_distance df ! i / (t' - t)))
          \<and> df_distance df ! i / (t' - t) \<le> 0
          \<and> (0 < df_distance df ! i \<longrightarrow> df_distance df ! i / (t' - t) < 0)"
    by blast
  from this [rule_format, of 0 10 0]
  have "df_speed df ! 0 = Some (Fin (df_distance df ! 0 / (0 - 10)))"
    by (simp add: track_defs)
  then have "df_speed df ! 0 = Some (Fin (- (22239 / 2)))"
    by (simp add: d0)
  then show ?thesis
    using nn by (simp add: df d0)
qed

section \<open>One sequence for all tracks and segments\<close>

text \<open>
  Claim C10. The table depends on the GPX object only through the sequence of all its
  points in order: it is the table of the single segment that holds them all. So where
  one segment ends with the point \<open>p\<close> and the next segment (of the same track, or the
  first of the next track) starts with the point \<open>q\<close>, the row of \<open>p\<close> holds the
  distance from \<open>p\<close> to \<open>q\<close> and, when some point carries a timestamp, the speed
  computed from that distance and the time from \<open>p\<close> to \<open>q\<close>.
\<close>

theorem flattening:
  "parse_gpx geo gpx = parse_gpx geo (one_segment (collect_data gpx))
   \<and> (gpx = GPX (ts @ GPXTrack (ss @ GPXTrackSegment (s1 @ [p]) #
                 GPXTrackSegment (q # s2) # ss') # ts')
       \<or> gpx = GPX (ts @ GPXTrack (ss @ [GPXTrackSegment (s1 @ [p])]) #
                 GPXTrack (GPXTrackSegment (q # s2) # ss') # ts') \<longrightarrow>
      (\<exists>df. parse_gpx geo gpx = Inr df
         \<and> df_distance df ! (length (collect_data (GPX ts)) + length (concat (map points ss))
               + length s1)
             = geo (latitude p, longitude p) (latitude q, longitude q)
         \<and> ((\<exists>r\<in>set (collect_data gpx). time r \<noteq> None) \<longrightarrow>
              df_speed df ! (length (collect_data (GPX ts)) + length (concat (map points ss))
                + length s1)
              = truediv (geo (latitude p, longitude p) (latitude q, longitude q))
                  (osub (time q) (time p)))))"
proof -
  have a: "parse_gpx geo gpx = parse_gpx geo (one_segment (collect_data gpx))"
    by (rule parse_gpx_collect) (simp add: collect_data_one_segment)
  let ?xs = "collect_data (GPX ts) @ concat (map points ss) @ s1"
  let ?ys = "s2 @ concat (map points ss') @ collect_data (GPX ts')"
  have b: "collect_data gpx = ?xs @ p # q # ?ys"
    if "gpx = GPX (ts @ GPXTrack (ss @ GPXTrackSegment (s1 @ [p]) #
                 GPXTrackSegment (q # s2) # ss') # ts')
       \<or> gpx = GPX (ts @ GPXTrack (ss @ [GPXTrackSegment (s1 @ [p])]) #
                 GPXTrack (GPXTrackSegment (q # s2) # ss') # ts')"
    using that collect_data_segment_boundary collect_data_track_boundary by metis
  have l: "length ?xs =
      length (collect_data (GPX ts)) + length (concat (map points ss)) + length s1"
    by simp
  show ?thesis
    using a adjacent_rows [OF b, of geo] unfolding l by blast
qed

theorem flattening_witness:
  "map_sum id (\<lambda>df. (df_distance df ! Suc 0, df_speed df ! Suc 0))
     (parse_gpx flat_geodesic
        (GPX [GPXTrack [GPXTrackSegment [pt 0 0 None (Some 0), pt 0 1 None (Some 10)],
                        GPXTrackSegment [pt 0 2 None (Some 20)]]]))
   = Inr (111195, Some (Fin (22239 / 2)))"
proof -
  let ?a = "pt 0 0 None (Some 0)" and ?b = "pt 0 1 None (Some 10)"
    and ?c = "pt 0 2 None (Some 20)"
  let ?g = "GPX [GPXTrack [GPXTrackSegment [?a, ?b], GPXTrackSegment [?c]]]"
  have shape: "?g = GPX ([] @ GPXTrack ([] @ GPXTrackSegment ([?a] @ [?b]) #
                 GPXTrackSegment (?c # []) # []) # [])"
    by simp
  have some: "\<exists>r\<in>set (collect_data ?g). time r \<noteq> None"
    by (simp add: collect_data_def pt_def)
  have ix: "length (collect_data (GPX [])) + length (concat (map points [])) + length [?a]
      = Suc 0"
    by (simp add: collect_data_def)
  from flattening [of flat_geodesic ?g "[]" "[]" "[?a]" ?b ?c "[]" "[]" "[]"] shape some
  obtain df where df: "parse_gpx flat_geodesic ?g = Inr df"
    and d: "df_distance df ! Suc 0 =
        flat_geodesic (latitude ?b, longitude ?b) (latitude ?c, longitude ?c)"
    and s: "df_speed df ! Suc 0 =
        truediv (flat_geodesic (latitude ?b, longitude ?b) (latitude ?c, longitude ?c))
          (osub (time ?c) (time ?b))"
    unfolding ix by blast
  have "df_distance df ! Suc 0 = 111195"
    unfolding d by (simp add: pt_def flat_geodesic_def)
  moreover have "df_speed df ! Suc 0 = Some (Fin (22239 / 2))"
    unfolding s by (simp add: pt_def flat_geodesic_def osub_def truediv_def)
  ultimately show ?thesis
    by (simp add: df)
qed

section \<open>The empty point sequence\<close>




section \<open>Missing elevations\<close>

text \<open>
  Claim C6, evaluated where it fails. The dicts always carry the key
  \<open>elevation\<close>, so the table always has the column and the guard that would fill it
  with zeros never holds for a track with points: a point without elevation keeps a
  null, on a track without any elevation and on a track where other points have one.
\<close>

theorem missing_elevation_kept:
  "map_sum id df_elevation
     (parse_gpx flat_geodesic (one_segment [pt 0 0 None None, pt 0 1 None None]))
   = Inr [None, None]
   \<and> map_sum id df_elevation
     (parse_gpx flat_geodesic (one_segment [pt 0 0 None None, pt 0 1 (Some 5) None]))
   = Inr [None, Some 5]"
  by (simp add: parse_gpx_def track_defs DataFrame_of_def
        len_def Let_def isnull_all_def shift_m1_def calculate_distance_def
        flat_geodesic_def osub_def truediv_def)

section \<open>Elevation gain\<close>



section \<open>The summary of a track without timestamps\<close>

text \<open>
  Claim C5, evaluated where it fails. Two points without timestamps and without
  elevations: the table is built, the average speed would be null, but the elevation
  column holds only \<open>None\<close> and \<open>calculate_features\<close> raises \<open>TypeError\<close> on its
  last line instead of returning the three statistics.
\<close>

theorem timeless_summary_failure:
  "(case parse_gpx flat_geodesic (one_segment [pt 0 0 None None, pt 0 1 None None]) of
      Inl e \<Rightarrow> Inl e
    | Inr df \<Rightarrow> calculate_features df)
   = Inl (TypeError ''unsupported operand type(s) for -: NoneType and NoneType'')"
proof -
  let ?g = "one_segment [pt 0 0 None None, pt 0 1 None None]"
  obtain df where df: "parse_gpx flat_geodesic ?g = Inr df"
    using parse_gpx_Inr [of ?g flat_geodesic] by (auto simp: track_defs)
  have "df_elevation df = [None, None]"
    by (simp add: parse_gpx_speed(3) [OF df] track_defs)
  then have "calculate_features df =
      Inl (TypeError ''unsupported operand type(s) for -: NoneType and NoneType'')"
    by (simp add: calculate_features_def elevation_gain_sum_def isnull_all_def Let_def)
  then show ?thesis
    by (simp add: df)
qed

section \<open>Failures of the renderers\<close>

text \<open>
  Claim C8, evaluated where it fails. A failure inside \<open>create_map\<close> (the token is not
  set, or the map file cannot be written) is not caught: it ends the request with that
  exception, and the elevation plot is not made.
\<close>

theorem map_failure_not_caught:
  "index (no_failure None) flat_geodesic
     (one_segment [pt 0 0 (Some 100) None, pt 0 1 (Some 130) None])
   = Inl (TypeError ''can only concatenate str (not NoneType) to str'')
   \<and> index ((no_failure (Some ''pk.token'')) \<lparr>map_save_failure := Some (OSError ''No space left on device'')\<rparr>)
       flat_geodesic (one_segment [pt 0 0 (Some 100) None, pt 0 1 (Some 130) None])
   = Inl (OSError ''No space left on device'')"
proof -
  let ?g = "one_segment [pt 0 0 (Some 100) None, pt 0 1 (Some 130) None]"
  obtain df where df: "parse_gpx flat_geodesic ?g = Inr df"
    using parse_gpx_Inr [of ?g flat_geodesic] by (auto simp: track_defs)
  have "df_elevation df = [Some 100, Some 130]"
    by (simp add: parse_gpx_speed(3) [OF df] track_defs)
  then have "\<not> (isnull_all (df_elevation df) \<and> 2 \<le> length (df_elevation df))"
    by (simp add: isnull_all_def)
  from calculate_features_total [OF this] obtain f where cf: "calculate_features df = Inr f"
    by blast
  have m1: "create_map (no_failure None) df =
      Inl (TypeError ''can only concatenate str (not NoneType) to str'')"
    by (simp add: create_map_def no_failure_def)
  have m2: "create_map ((no_failure (Some ''pk.token''))
        \<lparr>map_save_failure := Some (OSError ''No space left on device'')\<rparr>) df =
      Inl (OSError ''No space left on device'')"
    by (simp add: create_map_def no_failure_def)
  show ?thesis
    using index_map_failure_propagates [OF df cf m1]
      index_map_failure_propagates [OF df cf m2] by simp
qed

end
